theory Spec2Isabelle
  imports Complex_Main "HOL-Library.Word"
begin

section \<open>Python values\<close>

text \<open>
  A Python float is either a finite number, read here as the real it denotes (rounding is
  not modelled), or one of the three special values. The special values are kept because
  the source tests for one of them (\<^verbatim>\<open>np.isnan\<close>).
\<close>

datatype pyfloat = Fin real | PInf | NInf | NaN

text \<open>\<^verbatim>\<open>np.isnan(x)\<close>\<close>

definition np_isnan :: "pyfloat \<Rightarrow> bool" where
  "np_isnan x = (case x of NaN \<Rightarrow> True | _ \<Rightarrow> False)"

definition is_finite :: "pyfloat \<Rightarrow> bool" where
  "is_finite x = (case x of Fin _ \<Rightarrow> True | _ \<Rightarrow> False)"

text \<open>
  \<^verbatim>\<open>x > c\<close> and \<^verbatim>\<open>x < c\<close> for a finite literal \<open>c\<close>: every comparison with NaN is
  false, the infinities compare as expected.
\<close>

definition f_gt :: "pyfloat \<Rightarrow> real \<Rightarrow> bool" where
  "f_gt x c = (case x of Fin v \<Rightarrow> c < v | PInf \<Rightarrow> True | NInf \<Rightarrow> False | NaN \<Rightarrow> False)"

definition f_lt :: "pyfloat \<Rightarrow> real \<Rightarrow> bool" where
  "f_lt x c = (case x of Fin v \<Rightarrow> v < c | PInf \<Rightarrow> False | NInf \<Rightarrow> True | NaN \<Rightarrow> False)"

text \<open>\<^verbatim>\<open>int(x)\<close> on a finite float truncates towards zero.\<close>

definition py_int :: "real \<Rightarrow> int" where
  "py_int x = (if 0 \<le> x then \<lfloor>x\<rfloor> else \<lceil>x\<rceil>)"

text \<open>\<^verbatim>\<open>d.get(key, default)\<close>: a dictionary entry is \<open>None\<close> when the key is absent.\<close>

definition dict_get :: "'a option \<Rightarrow> 'a \<Rightarrow> 'a" where
  "dict_get entry dflt = (case entry of None \<Rightarrow> dflt | Some v \<Rightarrow> v)"

section \<open>The feature dictionary\<close>

text \<open>
  The dictionary that \<^verbatim>\<open>extract_librosa_features\<close> and
  \<^verbatim>\<open>convert_basic_to_audio_features\<close> build and that \<^verbatim>\<open>analyze_emotion_robust\<close>
  reads. Its keys are the twelve the source ever stores; a field is \<open>None\<close> while its key
  is absent. Entries that come out of the audio library are floats with their special
  values; \<^verbatim>\<open>duration\<close>, \<^verbatim>\<open>audio_std\<close> and \<^verbatim>\<open>audio_max\<close> are computed by the source
  itself from finite samples or from the file size, and are finite.
\<close>

record features =
  mfcc_mean :: "pyfloat option"
  mfcc_std :: "pyfloat option"
  spectral_centroid :: "pyfloat option"
  zcr :: "pyfloat option"
  rms :: "pyfloat option"
  tempo :: "pyfloat option"
  spectral_rolloff :: "pyfloat option"
  chroma_mean :: "pyfloat option"
  duration :: "real option"
  audio_std :: "real option"
  audio_max :: "real option"
  analysis_method :: "string option"

text \<open>\<^verbatim>\<open>features = {}\<close>\<close>

definition empty_features :: features where
  "empty_features =
     \<lparr>mfcc_mean = None, mfcc_std = None, spectral_centroid = None, zcr = None, rms = None,
      tempo = None, spectral_rolloff = None, chroma_mean = None, duration = None,
      audio_std = None, audio_max = None, analysis_method = None\<rparr>"

definition present :: "'a option \<Rightarrow> nat" where
  "present entry = (case entry of None \<Rightarrow> 0 | Some _ \<Rightarrow> 1)"

text \<open>\<^verbatim>\<open>len(features)\<close>\<close>

definition len_features :: "features \<Rightarrow> nat" where
  "len_features f =
     present (mfcc_mean f) + present (mfcc_std f) + present (spectral_centroid f) +
     present (zcr f) + present (rms f) + present (tempo f) + present (spectral_rolloff f) +
     present (chroma_mean f) + present (duration f) + present (audio_std f) +
     present (audio_max f) + present (analysis_method f)"

section \<open>The emotion scorer (\<^verbatim>\<open>analyze_emotion_robust\<close>)\<close>

text \<open>The keys of \<^verbatim>\<open>emotion_scores\<close>, in the order the dictionary literal inserts them.\<close>

datatype emotion = Alegria | Tristeza | Ansiedad | Enojo | Neutral

type_synonym emotion_scores = "emotion \<Rightarrow> real"

definition emotions :: "emotion list" where
  "emotions = [Alegria, Tristeza, Ansiedad, Enojo, Neutral]"

definition initial_scores :: emotion_scores where
  "initial_scores e = (case e of Neutral \<Rightarrow> 10 | _ \<Rightarrow> 5)"

text \<open>\<^verbatim>\<open>emotion_scores[e] += k\<close>\<close>

definition bump :: "emotion \<Rightarrow> real \<Rightarrow> emotion_scores \<Rightarrow> emotion_scores" where
  "bump e k s = s(e := s e + k)"

definition tempo_rule :: "pyfloat \<Rightarrow> emotion_scores \<Rightarrow> emotion_scores" where
  "tempo_rule t s =
     (if f_gt t 130 then bump Ansiedad 15 (bump Alegria 20 s)
      else if f_gt t 110 then bump Neutral 8 (bump Alegria 12 s)
      else if f_lt t 80 then bump Tristeza 20 s
      else if f_lt t 100 then bump Neutral 6 (bump Tristeza 12 s)
      else s)"

definition centroid_rule :: "pyfloat \<Rightarrow> emotion_scores \<Rightarrow> emotion_scores" where
  "centroid_rule c s =
     (if f_gt c 2200 then bump Ansiedad 12 (bump Alegria 15 s)
      else if f_gt c 1800 then bump Neutral 5 (bump Alegria 8 s)
      else if f_lt c 1000 then bump Tristeza 15 s
      else if f_lt c 1400 then bump Neutral 4 (bump Tristeza 8 s)
      else s)"

definition rms_rule :: "pyfloat \<Rightarrow> emotion_scores \<Rightarrow> emotion_scores" where
  "rms_rule r s =
     (if f_gt r (2/10) then bump Alegria 10 (bump Enojo 18 s)
      else if f_gt r (15/100) then bump Enojo 6 (bump Alegria 12 s)
      else if f_lt r (5/100) then bump Tristeza 15 s
      else if f_lt r (1/10) then bump Neutral 6 (bump Tristeza 8 s)
      else s)"

definition zcr_rule :: "pyfloat \<Rightarrow> emotion_scores \<Rightarrow> emotion_scores" where
  "zcr_rule z s =
     (if f_gt z (1/10) then bump Enojo 10 (bump Ansiedad 18 s)
      else if f_gt z (7/100) then bump Neutral 4 (bump Ansiedad 10 s)
      else if f_lt z (3/100) then bump Neutral 6 (bump Tristeza 10 s)
      else s)"

text \<open>The table after the four rule blocks, before the duration factor is applied.\<close>

definition rule_scores :: "features \<Rightarrow> emotion_scores" where
  "rule_scores f =
     zcr_rule (dict_get (zcr f) (Fin (5/100)))
       (rms_rule (dict_get (rms f) (Fin (1/10)))
         (centroid_rule (dict_get (spectral_centroid f) (Fin 1500))
           (tempo_rule (dict_get (tempo f) (Fin 120)) initial_scores)))"

text \<open>\<^verbatim>\<open>duration_factor = min(1.0, duration / 10.0)\<close>\<close>

definition duration_factor :: "real \<Rightarrow> real" where
  "duration_factor d = min 1 (d / 10)"

text \<open>The loop that multiplies every entry but Neutral's by the factor.\<close>

definition apply_duration_factor :: "real \<Rightarrow> emotion_scores \<Rightarrow> emotion_scores" where
  "apply_duration_factor k s = (\<lambda>e. if e \<noteq> Neutral then s e * k else s e)"

definition final_scores :: "features \<Rightarrow> emotion_scores" where
  "final_scores f =
     apply_duration_factor (duration_factor (dict_get (duration f) 10)) (rule_scores f)"

text \<open>
  \<^verbatim>\<open>max(emotion_scores, key=emotion_scores.get)\<close>: the keys are visited in insertion
  order and a later key replaces the running best only when its score is strictly greater.
\<close>

fun max_key :: "emotion_scores \<Rightarrow> emotion \<Rightarrow> emotion list \<Rightarrow> emotion" where
  "max_key s best [] = best"
| "max_key s best (e # es) = max_key s (if s best < s e then e else best) es"

definition dominant :: "emotion_scores \<Rightarrow> emotion" where
  "dominant s = max_key s Alegria [Tristeza, Ansiedad, Enojo, Neutral]"

text \<open>\<^verbatim>\<open>sorted(emotion_scores.values(), reverse=True)\<close>\<close>

definition scores_list :: "emotion_scores \<Rightarrow> real list" where
  "scores_list s = rev (sort (map s emotions))"

definition confidence_base :: "emotion_scores \<Rightarrow> int" where
  "confidence_base s =
     (let l = scores_list s in
      if 1 < length l \<and> 0 < l ! 1 then py_int (60 + (l ! 0 - l ! 1) * 2)
      else py_int (60 + s (dominant s)))"

definition basic_file_analysis :: string where
  "basic_file_analysis = ''basic_file_analysis''"

definition adjust_confidence :: "string \<Rightarrow> int \<Rightarrow> int" where
  "adjust_confidence m b =
     (if m = basic_file_analysis then min 85 (max 60 (b - 10)) else min 95 (max 65 b))"

record analysis =
  emotion :: emotion
  confidence :: int
  scores :: emotion_scores
  features_analyzed :: nat
  audio_duration :: real
  used_method :: string

text \<open>\<open>None\<close> is the source's \<^verbatim>\<open>return None\<close> for an empty dictionary.\<close>

definition analyze_emotion_robust :: "features \<Rightarrow> analysis option" where
  "analyze_emotion_robust f =
     (if len_features f = 0 then None
      else
        let m = dict_get (analysis_method f) ''librosa'';
            s = final_scores f
        in Some \<lparr>emotion = dominant s,
                 confidence = adjust_confidence m (confidence_base s),
                 scores = s,
                 features_analyzed = len_features f,
                 audio_duration = dict_get (duration f) 10,
                 used_method = m\<rparr>)"

section \<open>Sample buffers\<close>

text \<open>
  A decoded buffer is a list of finite samples. The two failures the array operations of
  the source can meet are kept as values: \<^verbatim>\<open>np.max\<close> of an empty array raises
  \<^verbatim>\<open>ValueError\<close>; a division by zero is marked \<open>ZeroDivisionError\<close> (Python raises it
  for scalars; for an array the library would hand back non-finite samples instead).
\<close>

datatype py_error = ValueError | ZeroDivisionError

fun np_max :: "real list \<Rightarrow> py_error + real" where
  "np_max [] = Inl ValueError"
| "np_max (x # xs) = Inr (fold max xs x)"

definition np_abs :: "real list \<Rightarrow> real list" where
  "np_abs y = map abs y"

text \<open>\<^verbatim>\<open>y / d\<close> for an array \<open>y\<close> and a scalar \<open>d\<close>\<close>

definition np_divide :: "real list \<Rightarrow> real \<Rightarrow> py_error + real list" where
  "np_divide y d = (if d = 0 then Inl ZeroDivisionError else Inr (map (\<lambda>v. v / d) y))"

definition np_mean :: "real list \<Rightarrow> real" where
  "np_mean y = sum_list y / real (length y)"

definition np_std :: "real list \<Rightarrow> real" where
  "np_std y = sqrt (np_mean (map (\<lambda>v. (v - np_mean y)\<^sup>2) y))"

text \<open>
  The normalisation at the head of \<^verbatim>\<open>extract_librosa_features\<close> (and, with the same two
  lines, of \<^verbatim>\<open>extract_audio_features_robust\<close>):
  \<^verbatim>\<open>if np.max(np.abs(y)) > 0: y = y / np.max(np.abs(y))\<close>
\<close>

definition normalize_audio :: "real list \<Rightarrow> py_error + real list" where
  "normalize_audio y =
     (case np_max (np_abs y) of
        Inl e \<Rightarrow> Inl e
      | Inr peak \<Rightarrow> if 0 < peak then np_divide y peak else Inr y)"

section \<open>The external collaborators\<close>

type_synonym byte = "8 word"

text \<open>
  The audio library and the converter are not part of the repository; the extractor is
  modelled for every behaviour they may show. Each field is one call of the source, as a
  function of what the call is given; \<open>None\<close> means that the call raises (for
  \<open>ffmpeg\<close>: that \<^verbatim>\<open>convert_webm_to_wav_ffmpeg\<close> returns \<^verbatim>\<open>False\<close>).
  \<^item> \<open>load\<close>: \<^verbatim>\<open>librosa.load(path, sr=22050, mono=True, duration=60)\<close>, the samples;
  \<^item> \<open>load_native\<close>: \<^verbatim>\<open>librosa.load(path, sr=None, ...)\<close>, the samples and their rate;
  \<^item> \<open>resample\<close>: \<^verbatim>\<open>librosa.resample(y, orig_sr=sr, target_sr=22050)\<close>;
  \<^item> \<open>ffmpeg\<close>: the contents of the converted file;
  \<^item> \<open>feature_mfcc\<close>: mean and standard deviation of the MFCC matrix;
  \<^item> the other \<open>feature_\<close> fields and \<open>beat_track\<close>: the float the source stores.
\<close>

record environment =
  load :: "byte list \<Rightarrow> real list option"
  load_native :: "byte list \<Rightarrow> (real list \<times> nat) option"
  resample :: "real list \<Rightarrow> nat \<Rightarrow> real list option"
  ffmpeg :: "byte list \<Rightarrow> byte list option"
  feature_mfcc :: "real list \<Rightarrow> nat \<Rightarrow> (pyfloat \<times> pyfloat) option"
  feature_spectral_centroid :: "real list \<Rightarrow> nat \<Rightarrow> pyfloat option"
  feature_zero_crossing_rate :: "real list \<Rightarrow> pyfloat option"
  feature_rms :: "real list \<Rightarrow> pyfloat option"
  beat_track :: "real list \<Rightarrow> nat \<Rightarrow> pyfloat option"
  feature_spectral_rolloff :: "real list \<Rightarrow> nat \<Rightarrow> pyfloat option"
  feature_chroma_stft :: "real list \<Rightarrow> nat \<Rightarrow> pyfloat option"

section \<open>Feature computation (\<^verbatim>\<open>extract_librosa_features\<close>)\<close>

text \<open>Each definition is one \<^verbatim>\<open>try\<close>/\<^verbatim>\<open>except\<close> block of the source, in its order.\<close>

definition mfcc_step :: "environment \<Rightarrow> real list \<Rightarrow> nat \<Rightarrow> features \<Rightarrow> features" where
  "mfcc_step E y sr f =
     (case feature_mfcc E y sr of
        Some (m, sd) \<Rightarrow> f\<lparr>mfcc_mean := Some m, mfcc_std := Some sd\<rparr>
      | None \<Rightarrow> f\<lparr>mfcc_mean := Some (Fin 0), mfcc_std := Some (Fin 1)\<rparr>)"

definition centroid_step :: "environment \<Rightarrow> real list \<Rightarrow> nat \<Rightarrow> features \<Rightarrow> features" where
  "centroid_step E y sr f =
     (case feature_spectral_centroid E y sr of
        Some c \<Rightarrow> f\<lparr>spectral_centroid := Some c\<rparr>
      | None \<Rightarrow> f\<lparr>spectral_centroid := Some (Fin 1500)\<rparr>)"

definition zcr_step :: "environment \<Rightarrow> real list \<Rightarrow> features \<Rightarrow> features" where
  "zcr_step E y f =
     (case feature_zero_crossing_rate E y of
        Some z \<Rightarrow> f\<lparr>zcr := Some z\<rparr>
      | None \<Rightarrow> f\<lparr>zcr := Some (Fin (5/100))\<rparr>)"

definition rms_step :: "environment \<Rightarrow> real list \<Rightarrow> features \<Rightarrow> features" where
  "rms_step E y f =
     (case feature_rms E y of
        Some r \<Rightarrow> f\<lparr>rms := Some r\<rparr>
      | None \<Rightarrow> f\<lparr>rms := Some (Fin (1/10))\<rparr>)"

text \<open>
  \<^verbatim>\<open>features['tempo'] = float(tempo) if not np.isnan(tempo) else 120.0\<close>, and
  \<^verbatim>\<open>120.0\<close> again in the \<^verbatim>\<open>except\<close> branch.
\<close>

definition tempo_step :: "environment \<Rightarrow> real list \<Rightarrow> nat \<Rightarrow> features \<Rightarrow> features" where
  "tempo_step E y sr f =
     (case beat_track E y sr of
        Some t \<Rightarrow> f\<lparr>tempo := Some (if \<not> np_isnan t then t else Fin 120)\<rparr>
      | None \<Rightarrow> f\<lparr>tempo := Some (Fin 120)\<rparr>)"

text \<open>
  Block 6 computes the roll-off and the chroma inside one \<^verbatim>\<open>try\<close>; its \<^verbatim>\<open>except\<close>
  branch stores both defaults, over a roll-off that was already stored.
\<close>

definition additional_step :: "environment \<Rightarrow> real list \<Rightarrow> nat \<Rightarrow> features \<Rightarrow> features" where
  "additional_step E y sr f =
     (case feature_spectral_rolloff E y sr of
        None \<Rightarrow> f\<lparr>spectral_rolloff := Some (Fin 2000), chroma_mean := Some (Fin (5/10))\<rparr>
      | Some r \<Rightarrow>
          (let f1 = f\<lparr>spectral_rolloff := Some r\<rparr> in
           case feature_chroma_stft E y sr of
             None \<Rightarrow> f1\<lparr>spectral_rolloff := Some (Fin 2000), chroma_mean := Some (Fin (5/10))\<rparr>
           | Some c \<Rightarrow> f1\<lparr>chroma_mean := Some c\<rparr>))"

text \<open>
  The whole function. Whatever raises outside the inner blocks (the peak of an empty
  buffer, a zero sample rate) is caught by the outer \<^verbatim>\<open>except\<close>, which returns
  \<^verbatim>\<open>None\<close>.
\<close>

definition extract_librosa_features :: "environment \<Rightarrow> real list \<Rightarrow> nat \<Rightarrow> features option" where
  "extract_librosa_features E y sr =
     (case normalize_audio y of
        Inl _ \<Rightarrow> None
      | Inr yn \<Rightarrow>
          (let f = additional_step E yn sr (tempo_step E yn sr (rms_step E yn (zcr_step E yn
                     (centroid_step E yn sr (mfcc_step E yn sr empty_features)))))
           in if sr = 0 then None
              else case np_max yn of
                     Inl _ \<Rightarrow> None
                   | Inr peak \<Rightarrow>
                       Some (f\<lparr>duration := Some (real (length yn) / real sr),
                               audio_std := Some (np_std yn),
                               audio_max := Some peak\<rparr>)))"

section \<open>Feature computation in \<^verbatim>\<open>extract_audio_features_robust\<close>\<close>

text \<open>
  The dictionary of \<^verbatim>\<open>extract_audio_features_robust\<close>: every value it stores is a
  number, so it is a map from the key to a float.
\<close>

type_synonym robust_features = "string \<rightharpoonup> pyfloat"

text \<open>
  The calls of the audio library in \<^verbatim>\<open>extract_audio_features_robust\<close>, each with the
  statistics the source stores from it; \<open>None\<close> means that the block raises.
\<close>

record robust_environment =
  robust_mfcc :: "real list \<Rightarrow> nat \<Rightarrow> (pyfloat \<times> pyfloat \<times> pyfloat) option"
  robust_spectral_centroid :: "real list \<Rightarrow> nat \<Rightarrow> (pyfloat \<times> pyfloat) option"
  robust_zero_crossing_rate :: "real list \<Rightarrow> (pyfloat \<times> pyfloat) option"
  robust_rms :: "real list \<Rightarrow> (pyfloat \<times> pyfloat) option"
  robust_beat_track :: "real list \<Rightarrow> nat \<Rightarrow> (pyfloat \<times> nat) option"
  robust_spectral_rolloff :: "real list \<Rightarrow> nat \<Rightarrow> pyfloat option"
  robust_spectral_bandwidth :: "real list \<Rightarrow> nat \<Rightarrow> pyfloat option"
  robust_chroma_stft :: "real list \<Rightarrow> nat \<Rightarrow> (pyfloat \<times> pyfloat) option"

text \<open>The seven guarded blocks, in the order of the source.\<close>

definition robust_mfcc_step ::
    "robust_environment \<Rightarrow> real list \<Rightarrow> nat \<Rightarrow> robust_features \<Rightarrow> robust_features" where
  "robust_mfcc_step E y sr f =
     (case robust_mfcc E y sr of
        Some (m, sd, v) \<Rightarrow> f(''mfcc_mean'' \<mapsto> m, ''mfcc_std'' \<mapsto> sd, ''mfcc_var'' \<mapsto> v)
      | None \<Rightarrow> f(''mfcc_mean'' \<mapsto> Fin 0, ''mfcc_std'' \<mapsto> Fin 1, ''mfcc_var'' \<mapsto> Fin 1))"

definition robust_centroid_step ::
    "robust_environment \<Rightarrow> real list \<Rightarrow> nat \<Rightarrow> robust_features \<Rightarrow> robust_features" where
  "robust_centroid_step E y sr f =
     (case robust_spectral_centroid E y sr of
        Some (c, sd) \<Rightarrow> f(''spectral_centroid'' \<mapsto> c, ''spectral_centroid_std'' \<mapsto> sd)
      | None \<Rightarrow> f(''spectral_centroid'' \<mapsto> Fin 1500, ''spectral_centroid_std'' \<mapsto> Fin 300))"

definition robust_zcr_step ::
    "robust_environment \<Rightarrow> real list \<Rightarrow> robust_features \<Rightarrow> robust_features" where
  "robust_zcr_step E y f =
     (case robust_zero_crossing_rate E y of
        Some (z, sd) \<Rightarrow> f(''zcr'' \<mapsto> z, ''zcr_std'' \<mapsto> sd)
      | None \<Rightarrow> f(''zcr'' \<mapsto> Fin (5/100), ''zcr_std'' \<mapsto> Fin (1/100)))"

definition robust_rms_step ::
    "robust_environment \<Rightarrow> real list \<Rightarrow> robust_features \<Rightarrow> robust_features" where
  "robust_rms_step E y f =
     (case robust_rms E y of
        Some (r, sd) \<Rightarrow> f(''rms'' \<mapsto> r, ''rms_std'' \<mapsto> sd)
      | None \<Rightarrow> f(''rms'' \<mapsto> Fin (1/10), ''rms_std'' \<mapsto> Fin (2/100)))"

definition robust_tempo_step ::
    "robust_environment \<Rightarrow> real list \<Rightarrow> nat \<Rightarrow> robust_features \<Rightarrow> robust_features" where
  "robust_tempo_step E y sr f =
     (case robust_beat_track E y sr of
        Some (t, beats) \<Rightarrow>
          f(''tempo'' \<mapsto> (if \<not> np_isnan t then t else Fin 120),
            ''beat_count'' \<mapsto> Fin (real beats))
      | None \<Rightarrow> f(''tempo'' \<mapsto> Fin 120, ''beat_count'' \<mapsto> Fin 0))"

text \<open>
  Block 6 shares one \<^verbatim>\<open>try\<close> between the roll-off and the bandwidth; block 7 guards the
  chroma on its own.
\<close>

definition robust_spectral_step ::
    "robust_environment \<Rightarrow> real list \<Rightarrow> nat \<Rightarrow> robust_features \<Rightarrow> robust_features" where
  "robust_spectral_step E y sr f =
     (case robust_spectral_rolloff E y sr of
        None \<Rightarrow> f(''spectral_rolloff'' \<mapsto> Fin 2000, ''spectral_bandwidth'' \<mapsto> Fin 1000)
      | Some r \<Rightarrow>
          (let f1 = f(''spectral_rolloff'' \<mapsto> r) in
           case robust_spectral_bandwidth E y sr of
             None \<Rightarrow> f1(''spectral_rolloff'' \<mapsto> Fin 2000, ''spectral_bandwidth'' \<mapsto> Fin 1000)
           | Some b \<Rightarrow> f1(''spectral_bandwidth'' \<mapsto> b)))"

definition robust_chroma_step ::
    "robust_environment \<Rightarrow> real list \<Rightarrow> nat \<Rightarrow> robust_features \<Rightarrow> robust_features" where
  "robust_chroma_step E y sr f =
     (case robust_chroma_stft E y sr of
        Some (c, sd) \<Rightarrow> f(''chroma_mean'' \<mapsto> c, ''chroma_std'' \<mapsto> sd)
      | None \<Rightarrow> f(''chroma_mean'' \<mapsto> Fin (5/10), ''chroma_std'' \<mapsto> Fin (1/10)))"

fun np_min :: "real list \<Rightarrow> py_error + real" where
  "np_min [] = Inl ValueError"
| "np_min (x # xs) = Inr (fold min xs x)"

text \<open>
  The function from its test for an empty buffer on, for a buffer that one of its decoding
  methods has produced.
\<close>

definition robust_features_of_buffer ::
    "robust_environment \<Rightarrow> real list \<Rightarrow> nat \<Rightarrow> robust_features option" where
  "robust_features_of_buffer E y sr =
     (if length y = 0 then None
      else case normalize_audio y of
        Inl _ \<Rightarrow> None
      | Inr yn \<Rightarrow>
          (let f = robust_chroma_step E yn sr (robust_spectral_step E yn sr
                     (robust_tempo_step E yn sr (robust_rms_step E yn (robust_zcr_step E yn
                       (robust_centroid_step E yn sr (robust_mfcc_step E yn sr Map.empty))))))
           in if sr = 0 then None
              else case (np_max yn, np_min yn) of
                     (Inr hi, Inr lo) \<Rightarrow>
                       Some (f(''duration'' \<mapsto> Fin (real (length yn) / real sr),
                               ''sample_rate'' \<mapsto> Fin (real sr),
                               ''samples'' \<mapsto> Fin (real (length yn)),
                               ''audio_mean'' \<mapsto> Fin (np_mean yn),
                               ''audio_std'' \<mapsto> Fin (np_std yn),
                               ''audio_max'' \<mapsto> Fin hi,
                               ''audio_min'' \<mapsto> Fin lo))
                   | _ \<Rightarrow> None))"

section \<open>The byte heuristic\<close>

record basic_features =
  file_size :: nat
  estimated_duration :: real
  header_entropy :: real
  file_complexity :: real

text \<open>
  \<^verbatim>\<open>analyze_audio_basic_properties\<close>, on the bytes of a file that can be read.
  \<^verbatim>\<open>len(set(header))\<close> counts the distinct byte values among the first 1024 bytes.
\<close>

definition analyze_audio_basic_properties :: "byte list \<Rightarrow> basic_features option" where
  "analyze_audio_basic_properties bytes =
     (let size = length bytes;
          header = take 1024 bytes;
          est = real size / (44100 * 2)
      in Some \<lparr>file_size = size,
               estimated_duration = min est 60,
               header_entropy = real (length (remdups header)) / 256,
               file_complexity = real size / 1024\<rparr>)"

text \<open>\<^verbatim>\<open>x % m\<close> on floats, for a positive \<open>m\<close>\<close>

definition py_fmod :: "real \<Rightarrow> real \<Rightarrow> real" where
  "py_fmod x m = x - m * of_int \<lfloor>x / m\<rfloor>"

definition convert_basic_to_audio_features :: "basic_features \<Rightarrow> features option" where
  "convert_basic_to_audio_features b =
     (let size = file_size b;
          dur = estimated_duration b;
          entropy = header_entropy b;
          complexity = file_complexity b
      in Some \<lparr>mfcc_mean = Some (Fin ((entropy - 5/10) * 20)),
               mfcc_std = Some (Fin (entropy * 15)),
               spectral_centroid = Some (Fin (1000 + py_fmod complexity 1000)),
               zcr = Some (Fin (3/100 + entropy * (5/100))),
               rms = Some (Fin (5/100 + py_fmod complexity 100 / 1000)),
               tempo = Some (Fin (real (80 + size mod 80))),
               spectral_rolloff = Some (Fin (1500 + py_fmod complexity 1500)),
               chroma_mean = Some (Fin (3/10 + entropy * (4/10))),
               duration = Some dur,
               audio_std = Some (5/100 + entropy * (1/10)),
               audio_max = Some (5/10 + entropy * (5/10)),
               analysis_method = Some basic_file_analysis\<rparr>)"

section \<open>The strategy chain (\<^verbatim>\<open>extract_audio_features_multiple_methods\<close>)\<close>

record audio_file =
  path :: string
  content :: "byte list"

definition lower :: "string \<Rightarrow> string" where
  "lower s =
     map (\<lambda>c. if 65 \<le> (of_char c :: nat) \<and> (of_char c :: nat) \<le> 90
               then char_of (of_char c + (32 :: nat)) else c) s"

definition endswith :: "string \<Rightarrow> string \<Rightarrow> bool" where
  "endswith s sfx = (length sfx \<le> length s \<and> drop (length s - length sfx) s = sfx)"

text \<open>
  A method either returns from the function (\<open>Some r\<close>, where \<open>r\<close> is what it returns)
  or leaves the chain to the next method (\<open>None\<close>).
\<close>

definition method1 :: "environment \<Rightarrow> audio_file \<Rightarrow> features option option" where
  "method1 E file =
     (case load E (content file) of
        None \<Rightarrow> None
      | Some y \<Rightarrow> if 0 < length y then Some (extract_librosa_features E y 22050) else None)"

definition method2 :: "environment \<Rightarrow> audio_file \<Rightarrow> features option option" where
  "method2 E file =
     (if endswith (lower (path file)) ''.webm'' then
        (case ffmpeg E (content file) of
           None \<Rightarrow> None
         | Some wav \<Rightarrow>
             (case load E wav of
                None \<Rightarrow> None
              | Some y \<Rightarrow> Some (extract_librosa_features E y 22050)))
      else None)"

definition method3 :: "environment \<Rightarrow> audio_file \<Rightarrow> features option option" where
  "method3 E file =
     (case load_native E (content file) of
        None \<Rightarrow> None
      | Some (y, sr) \<Rightarrow>
          if sr \<noteq> 22050 then
            (case resample E y sr of
               None \<Rightarrow> None
             | Some y' \<Rightarrow> Some (extract_librosa_features E y' 22050))
          else Some (extract_librosa_features E y sr))"

definition method4 :: "audio_file \<Rightarrow> features option" where
  "method4 file =
     (case analyze_audio_basic_properties (content file) of
        Some b \<Rightarrow> convert_basic_to_audio_features b
      | None \<Rightarrow> None)"

definition extract_audio_features_multiple_methods ::
    "environment \<Rightarrow> audio_file \<Rightarrow> features option" where
  "extract_audio_features_multiple_methods E file =
     (case method1 E file of
        Some r \<Rightarrow> r
      | None \<Rightarrow>
          (case method2 E file of
             Some r \<Rightarrow> r
           | None \<Rightarrow>
               (case method3 E file of
                  Some r \<Rightarrow> r
                | None \<Rightarrow> method4 file)))"

section \<open>The request handler (\<^verbatim>\<open>analyze_audio\<close>), from the saved file on\<close>

datatype error_response = Empty_file | No_features | Emotion_error

text \<open>
  The three error answers are the source's 400 answer for an empty file and its two 500 answers.
  The success answer carries the analysis; the time stamp and the file name that the
  source adds to it are left out.
\<close>

definition analyze_audio :: "environment \<Rightarrow> audio_file \<Rightarrow> error_response + analysis" where
  "analyze_audio E file =
     (if length (content file) = 0 then Inl Empty_file
      else case extract_audio_features_multiple_methods E file of
             None \<Rightarrow> Inl No_features
           | Some f \<Rightarrow>
               (case analyze_emotion_robust f of
                  None \<Rightarrow> Inl Emotion_error
                | Some r \<Rightarrow> Inr r))"

section \<open>Definitions used to state the properties\<close>











text \<open>Concrete inputs: an environment in which every call of a collaborator raises.\<close>

definition failing_environment :: environment where
  "failing_environment =
     \<lparr>load = (\<lambda>_. None), load_native = (\<lambda>_. None), resample = (\<lambda>_ _. None),
      ffmpeg = (\<lambda>_. None), feature_mfcc = (\<lambda>_ _. None),
      feature_spectral_centroid = (\<lambda>_ _. None), feature_zero_crossing_rate = (\<lambda>_. None),
      feature_rms = (\<lambda>_. None), beat_track = (\<lambda>_ _. None),
      feature_spectral_rolloff = (\<lambda>_ _. None), feature_chroma_stft = (\<lambda>_ _. None)\<rparr>"


text \<open>
  The dictionary after the six guarded blocks of \<^verbatim>\<open>extract_librosa_features\<close>, before
  the duration and the statistics of the buffer are stored.
\<close>

definition computed_features :: "environment \<Rightarrow> real list \<Rightarrow> nat \<Rightarrow> features" where
  "computed_features E yn sr =
     additional_step E yn sr (tempo_step E yn sr (rms_step E yn (zcr_step E yn
       (centroid_step E yn sr (mfcc_step E yn sr empty_features)))))"

section \<open>Facts about the scorer\<close>

text \<open>Every rule block only adds to the table.\<close>

lemma tempo_rule_ge: "s e \<le> tempo_rule t s e"
  by (simp add: tempo_rule_def bump_def)

lemma centroid_rule_ge: "s e \<le> centroid_rule t s e"
  by (simp add: centroid_rule_def bump_def)

lemma rms_rule_ge: "s e \<le> rms_rule t s e"
  by (simp add: rms_rule_def bump_def)

lemma zcr_rule_ge: "s e \<le> zcr_rule t s e"
  by (simp add: zcr_rule_def bump_def)

lemma rule_scores_ge: "initial_scores e \<le> rule_scores f e"
  unfolding rule_scores_def
  by (meson order_trans tempo_rule_ge centroid_rule_ge rms_rule_ge zcr_rule_ge)



lemma rule_scores_neutral: "10 \<le> rule_scores f Neutral"
  using rule_scores_ge [of Neutral f] by (simp add: initial_scores_def)

lemma final_scores_neutral: "final_scores f Neutral = rule_scores f Neutral"
  by (simp add: final_scores_def apply_duration_factor_def)


lemma max_key_ge_best: "s b \<le> s (max_key s b es)"
proof (induction es arbitrary: b)
  case Nil
  show ?case by simp
next
  case (Cons a es)
  have "s b \<le> s (if s b < s a then a else b)" by simp
  also have "\<dots> \<le> s (max_key s (if s b < s a then a else b) es)" by (rule Cons.IH)
  finally show ?case by simp
qed

lemma max_key_ge: "e \<in> set es \<Longrightarrow> s e \<le> s (max_key s b es)"
proof (induction es arbitrary: b)
  case Nil
  then show ?case by simp
next
  case (Cons a es)
  show ?case
  proof (cases "e = a")
    case True
    have "s a \<le> s (if s b < s a then a else b)" by simp
    also have "\<dots> \<le> s (max_key s (if s b < s a then a else b) es)" by (rule max_key_ge_best)
    finally show ?thesis using True by simp
  next
    case False
    with Cons.prems have "e \<in> set es" by simp
    then show ?thesis using Cons.IH by simp
  qed
qed

lemma dominant_ge: "s e \<le> s (dominant s)"
proof (cases "e = Alegria")
  case True
  then show ?thesis unfolding dominant_def by (simp only: max_key_ge_best)
next
  case False
  then have "e \<in> set [Tristeza, Ansiedad, Enojo, Neutral]" by (cases e) simp_all
  then show ?thesis unfolding dominant_def by (rule max_key_ge)
qed

lemma length_scores_list: "length (scores_list s) = 5"
  by (simp add: scores_list_def emotions_def)

lemma set_scores_list: "set (scores_list s) = range s"
proof -
  have "set emotions = UNIV"
    unfolding emotions_def using emotion.exhaust by auto
  then show ?thesis by (simp add: scores_list_def)
qed

lemma scores_list_desc: "i \<le> j \<Longrightarrow> j < 5 \<Longrightarrow> scores_list s ! j \<le> scores_list s ! i"
proof -
  assume ij: "i \<le> j" and j: "j < 5"
  let ?xs = "sort (map s emotions)"
  have len: "length ?xs = 5" by (simp add: emotions_def)
  have "scores_list s ! j = ?xs ! (5 - Suc j)" "scores_list s ! i = ?xs ! (5 - Suc i)"
    using ij j len by (simp_all add: scores_list_def rev_nth)
  moreover have "?xs ! (5 - Suc j) \<le> ?xs ! (5 - Suc i)"
    by (rule sorted_nth_mono) (use ij j len in simp_all)
  ultimately show ?thesis by simp
qed

lemma top1_is_max: "scores_list s ! 0 = s (dominant s)"
proof (rule antisym)
  have "scores_list s ! 0 \<in> set (scores_list s)"
    by (rule nth_mem) (simp add: length_scores_list)
  then obtain e where "scores_list s ! 0 = s e" by (auto simp: set_scores_list)
  then show "scores_list s ! 0 \<le> s (dominant s)" by (simp add: dominant_ge)
next
  have "s (dominant s) \<in> set (scores_list s)" by (simp add: set_scores_list)
  then obtain j where j: "j < 5" "scores_list s ! j = s (dominant s)"
    by (auto simp: in_set_conv_nth length_scores_list)
  then show "s (dominant s) \<le> scores_list s ! 0"
    using scores_list_desc[of 0 j s] by simp
qed


lemma adjust_confidence_range:
  "(if m = basic_file_analysis then 60 else 65) \<le> adjust_confidence m b \<and>
   adjust_confidence m b \<le> (if m = basic_file_analysis then 85 else 95)"
  by (simp add: adjust_confidence_def)















section \<open>Facts about buffers and the byte heuristic\<close>

lemma np_max_Max: "np_max (x # xs) = Inr (Max (set (x # xs)))"
  by (simp only: np_max.simps Max.set_eq_fold)

lemma np_max_abs_cases:
  assumes "np_max (np_abs y) = Inr peak"
  shows "y \<noteq> [] \<and> peak = Max (set (map abs y))"
proof (cases y)
  case Nil
  with assms show ?thesis by (simp add: np_abs_def)
next
  case (Cons a l)
  have "np_max (np_abs (a # l)) = Inr (Max (set (map abs (a # l))))"
    using np_max_Max [of "\<bar>a\<bar>" "map abs l"] by (simp only: np_abs_def list.map)
  with assms Cons show ?thesis by simp
qed

lemma peak_props:
  assumes "np_max (np_abs y) = Inr peak"
  shows "0 \<le> peak" and "\<And>v. v \<in> set y \<Longrightarrow> \<bar>v\<bar> \<le> peak" and "\<exists>v \<in> set y. \<bar>v\<bar> = peak"
proof -
  from assms have ne: "y \<noteq> []" and pk: "peak = Max (set (map abs y))"
    using np_max_abs_cases by blast+
  have fin: "finite (set (map abs y))" and nemp: "set (map abs y) \<noteq> {}" using ne by simp_all
  show le: "\<And>v. v \<in> set y \<Longrightarrow> \<bar>v\<bar> \<le> peak"
    unfolding pk by (rule Max_ge) simp_all
  from Max_in [OF fin nemp] show ex: "\<exists>v \<in> set y. \<bar>v\<bar> = peak"
    unfolding pk by auto
  then show "0 \<le> peak" by auto
qed

lemma normalized_peak:
  assumes "np_max (np_abs y) = Inr peak" and "0 < peak"
  shows "np_max (np_abs (map (\<lambda>v. v / peak) y)) = Inr 1"
proof -
  let ?z = "map (\<lambda>v. v / peak) y"
  from assms(1) have ne: "y \<noteq> []" using np_max_abs_cases by blast
  then obtain x xs where z: "map abs ?z = x # xs" by (cases y) auto
  have "Max (set (map abs ?z)) = 1"
  proof (rule Max_eqI)
    show "finite (set (map abs ?z))" by simp
    fix w assume "w \<in> set (map abs ?z)"
    then obtain v where "v \<in> set y" "w = \<bar>v / peak\<bar>" by auto
    then show "w \<le> 1" using peak_props(2) [OF assms(1)] assms(2) by simp
  next
    obtain v where v: "v \<in> set y" "\<bar>v\<bar> = peak" using peak_props(3) [OF assms(1)] by blast
    have "\<bar>v / peak\<bar> = \<bar>v\<bar> / \<bar>peak\<bar>" by (rule abs_divide)
    also have "\<dots> = 1" using v(2) assms(2) by simp
    finally have one: "\<bar>v / peak\<bar> = 1" .
    have "\<bar>v / peak\<bar> \<in> set (map abs ?z)" using v(1) by (simp add: image_iff) blast
    then show "1 \<in> set (map abs ?z)" by (simp only: one)
  qed
  then have "np_max (x # xs) = Inr 1" by (simp only: np_max_Max z)
  then show ?thesis by (simp only: np_abs_def z)
qed

lemma header_entropy_bounds:
  fixes bytes :: "byte list"
  shows "length (remdups (take 1024 bytes)) \<le> 256"
proof -
  have "card (set (take 1024 bytes)) \<le> card (UNIV :: byte set)"
    by (rule card_mono) simp_all
  then show ?thesis by (simp add: length_remdups_card_conv card_word)
qed

section \<open>Facts about the extractor\<close>

text \<open>What each guarded block stores, and which entries it leaves alone.\<close>

lemma mfcc_step_fields:
  "mfcc_mean (mfcc_step E y sr f) =
     Some (case feature_mfcc E y sr of Some (m, sd) \<Rightarrow> m | None \<Rightarrow> Fin 0)"
  "mfcc_std (mfcc_step E y sr f) =
     Some (case feature_mfcc E y sr of Some (m, sd) \<Rightarrow> sd | None \<Rightarrow> Fin 1)"
  by (simp_all add: mfcc_step_def split: option.split prod.split)

lemma centroid_step_fields:
  "spectral_centroid (centroid_step E y sr f) =
     Some (case feature_spectral_centroid E y sr of Some c \<Rightarrow> c | None \<Rightarrow> Fin 1500)"
  "mfcc_mean (centroid_step E y sr f) = mfcc_mean f"
  "mfcc_std (centroid_step E y sr f) = mfcc_std f"
  by (simp_all add: centroid_step_def split: option.split)

lemma zcr_step_fields:
  "zcr (zcr_step E y f) =
     Some (case feature_zero_crossing_rate E y of Some z \<Rightarrow> z | None \<Rightarrow> Fin (5/100))"
  "mfcc_mean (zcr_step E y f) = mfcc_mean f"
  "mfcc_std (zcr_step E y f) = mfcc_std f"
  "spectral_centroid (zcr_step E y f) = spectral_centroid f"
  by (simp_all add: zcr_step_def split: option.split)

lemma rms_step_fields:
  "rms (rms_step E y f) =
     Some (case feature_rms E y of Some r \<Rightarrow> r | None \<Rightarrow> Fin (1/10))"
  "mfcc_mean (rms_step E y f) = mfcc_mean f"
  "mfcc_std (rms_step E y f) = mfcc_std f"
  "spectral_centroid (rms_step E y f) = spectral_centroid f"
  "zcr (rms_step E y f) = zcr f"
  by (simp_all add: rms_step_def split: option.split)

lemma tempo_step_fields:
  "tempo (tempo_step E y sr f) =
     Some (case beat_track E y sr of
             Some t \<Rightarrow> if np_isnan t then Fin 120 else t
           | None \<Rightarrow> Fin 120)"
  "mfcc_mean (tempo_step E y sr f) = mfcc_mean f"
  "mfcc_std (tempo_step E y sr f) = mfcc_std f"
  "spectral_centroid (tempo_step E y sr f) = spectral_centroid f"
  "zcr (tempo_step E y sr f) = zcr f"
  "rms (tempo_step E y sr f) = rms f"
  by (simp_all add: tempo_step_def split: option.split)

lemma additional_step_fields:
  "spectral_rolloff (additional_step E y sr f) =
     Some (case feature_spectral_rolloff E y sr of
             Some r \<Rightarrow> (case feature_chroma_stft E y sr of Some c \<Rightarrow> r | None \<Rightarrow> Fin 2000)
           | None \<Rightarrow> Fin 2000)"
  "chroma_mean (additional_step E y sr f) =
     Some (case feature_spectral_rolloff E y sr of
             Some r \<Rightarrow> (case feature_chroma_stft E y sr of Some c \<Rightarrow> c | None \<Rightarrow> Fin (5/10))
           | None \<Rightarrow> Fin (5/10))"
  "mfcc_mean (additional_step E y sr f) = mfcc_mean f"
  "mfcc_std (additional_step E y sr f) = mfcc_std f"
  "spectral_centroid (additional_step E y sr f) = spectral_centroid f"
  "zcr (additional_step E y sr f) = zcr f"
  "rms (additional_step E y sr f) = rms f"
  "tempo (additional_step E y sr f) = tempo f"
  by (simp_all add: additional_step_def Let_def split: option.split)

lemmas step_fields = mfcc_step_fields centroid_step_fields zcr_step_fields rms_step_fields
  tempo_step_fields additional_step_fields

lemma normalize_audio_nonempty: "normalize_audio y = Inr yn \<Longrightarrow> yn \<noteq> [] \<and> length yn = length y"
  by (cases y) (auto simp: normalize_audio_def np_abs_def np_divide_def split: if_splits)

lemma normalize_audio_total: "y \<noteq> [] \<Longrightarrow> \<exists>yn. normalize_audio y = Inr yn"
  by (cases y) (auto simp: normalize_audio_def np_abs_def np_divide_def)

lemma extract_librosa_features_Some:
  assumes "extract_librosa_features E y sr = Some f"
  shows "\<exists>yn peak. normalize_audio y = Inr yn \<and> sr \<noteq> 0 \<and> np_max yn = Inr peak \<and>
     f = (computed_features E yn sr)\<lparr>duration := Some (real (length yn) / real sr),
            audio_std := Some (np_std yn), audio_max := Some peak\<rparr>"
  using assms
  by (auto simp: extract_librosa_features_def computed_features_def Let_def
      split: sum.splits if_splits)

lemma extract_librosa_features_total:
  assumes "y \<noteq> []" and "sr \<noteq> 0"
  shows "\<exists>f. extract_librosa_features E y sr = Some f"
proof -
  obtain yn where yn: "normalize_audio y = Inr yn" using normalize_audio_total [OF assms(1)] by blast
  then have "yn \<noteq> []" using normalize_audio_nonempty by blast
  then obtain peak where "np_max yn = Inr peak" by (cases yn) simp_all
  with yn assms(2) show ?thesis
    by (simp add: extract_librosa_features_def Let_def)
qed

lemma extract_librosa_features_empty: "extract_librosa_features E [] sr = None"
  by (simp add: extract_librosa_features_def normalize_audio_def np_abs_def)

text \<open>
  The same groups in \<^verbatim>\<open>extract_audio_features_robust\<close>: the tempo is guarded as in
  \<^verbatim>\<open>extract_librosa_features\<close>, the roll-off shares its guard with the bandwidth, the
  chroma has a guard of its own.
\<close>

lemma robust_features_of_buffer_Some:
  assumes "robust_features_of_buffer E y sr = Some f"
  shows "\<exists>yn. normalize_audio y = Inr yn \<and>
     f ''tempo'' = Some (case robust_beat_track E yn sr of
                          Some (t, beats) \<Rightarrow> if np_isnan t then Fin 120 else t
                        | None \<Rightarrow> Fin 120) \<and>
     f ''spectral_rolloff'' =
       Some (case robust_spectral_rolloff E yn sr of
               Some r \<Rightarrow>
                 (case robust_spectral_bandwidth E yn sr of Some b \<Rightarrow> r | None \<Rightarrow> Fin 2000)
             | None \<Rightarrow> Fin 2000) \<and>
     f ''chroma_mean'' =
       Some (case robust_chroma_stft E yn sr of Some (c, sd) \<Rightarrow> c | None \<Rightarrow> Fin (5/10))"
proof -
  from assms obtain yn hi lo where yn: "normalize_audio y = Inr yn" and
    f: "f = (robust_chroma_step E yn sr (robust_spectral_step E yn sr
                     (robust_tempo_step E yn sr (robust_rms_step E yn (robust_zcr_step E yn
                       (robust_centroid_step E yn sr (robust_mfcc_step E yn sr Map.empty)))))))
             (''duration'' \<mapsto> Fin (real (length yn) / real sr),
                               ''sample_rate'' \<mapsto> Fin (real sr),
                               ''samples'' \<mapsto> Fin (real (length yn)),
                               ''audio_mean'' \<mapsto> Fin (np_mean yn),
                               ''audio_std'' \<mapsto> Fin (np_std yn),
                               ''audio_max'' \<mapsto> Fin hi,
                               ''audio_min'' \<mapsto> Fin lo)"
    by (auto simp: robust_features_of_buffer_def Let_def split: sum.splits if_splits)
  show ?thesis
    apply (rule exI [of _ yn])
    apply (simp add: yn f)
    apply (simp add: robust_chroma_step_def robust_spectral_step_def robust_tempo_step_def
        Let_def split: option.split prod.split)
    done
qed

lemma robust_features_of_buffer_total:
  assumes "y \<noteq> []" and "sr \<noteq> 0"
  shows "\<exists>f. robust_features_of_buffer E y sr = Some f"
proof -
  obtain yn where yn: "normalize_audio y = Inr yn" using normalize_audio_total [OF assms(1)] by blast
  then have "yn \<noteq> []" using normalize_audio_nonempty by blast
  then obtain hi lo where "np_max yn = Inr hi" "np_min yn = Inr lo" by (cases yn) simp_all
  with yn assms show ?thesis
    by (simp add: robust_features_of_buffer_def Let_def)
qed

text \<open>
  Every dictionary the strategy chain returns holds the nine named features, and its
  duration is not negative.
\<close>

lemma extract_librosa_features_keys:
  assumes "extract_librosa_features E y sr = Some f"
  shows "mfcc_mean f \<noteq> None \<and> mfcc_std f \<noteq> None \<and> spectral_centroid f \<noteq> None \<and>
         zcr f \<noteq> None \<and> rms f \<noteq> None \<and> tempo f \<noteq> None \<and> spectral_rolloff f \<noteq> None \<and>
         chroma_mean f \<noteq> None \<and> (\<exists>d. duration f = Some d \<and> 0 \<le> d)"
proof -
  from extract_librosa_features_Some [OF assms] obtain yn peak where
    f: "f = (computed_features E yn sr)\<lparr>duration := Some (real (length yn) / real sr),
            audio_std := Some (np_std yn), audio_max := Some peak\<rparr>"
    by blast
  show ?thesis by (simp add: f computed_features_def step_fields)
qed

lemma method4_keys:
  assumes "method4 file = Some f"
  shows "mfcc_mean f \<noteq> None \<and> mfcc_std f \<noteq> None \<and> spectral_centroid f \<noteq> None \<and>
         zcr f \<noteq> None \<and> rms f \<noteq> None \<and> tempo f \<noteq> None \<and> spectral_rolloff f \<noteq> None \<and>
         chroma_mean f \<noteq> None \<and> (\<exists>d. duration f = Some d \<and> 0 \<le> d)"
  using assms
  by (auto simp: method4_def analyze_audio_basic_properties_def
      convert_basic_to_audio_features_def Let_def)

lemma extracted_keys:
  assumes "extract_audio_features_multiple_methods E file = Some f"
  shows "mfcc_mean f \<noteq> None \<and> mfcc_std f \<noteq> None \<and> spectral_centroid f \<noteq> None \<and>
         zcr f \<noteq> None \<and> rms f \<noteq> None \<and> tempo f \<noteq> None \<and> spectral_rolloff f \<noteq> None \<and>
         chroma_mean f \<noteq> None \<and> (\<exists>d. duration f = Some d \<and> 0 \<le> d)"
proof -
  have "(\<exists>y sr. extract_librosa_features E y sr = Some f) \<or> method4 file = Some f"
    using assms
    by (auto simp: extract_audio_features_multiple_methods_def method1_def method2_def
        method3_def split: option.splits if_splits prod.splits)
  then show ?thesis using extract_librosa_features_keys method4_keys by blast
qed

lemma extracted_duration_nonneg:
  assumes "extract_audio_features_multiple_methods E file = Some f"
  shows "0 \<le> dict_get (duration f) 10"
  using extracted_keys [OF assms] by (auto simp: dict_get_def)

lemma method4_complete: "\<exists>f. method4 file = Some f \<and> len_features f = 12"
  by (simp add: method4_def analyze_audio_basic_properties_def
      convert_basic_to_audio_features_def Let_def len_features_def present_def)

lemma all_decoders_raise:
  "extract_audio_features_multiple_methods failing_environment file = method4 file"
  by (simp add: extract_audio_features_multiple_methods_def method1_def method2_def
      method3_def failing_environment_def)

section \<open>The claims about the scorer\<close>

text \<open>
  Claim C10. For every feature dictionary the returned table gives Neutral at least its
  initial 10: the entry starts at 10, the rule blocks only add to it, and the duration
  factor is not applied to it. So the returned table is never all zero, and its highest
  score (the first entry of the sorted list, which is the score of the returned emotion)
  is strictly positive.
\<close>

theorem neutral_keeps_its_base:
  "initial_scores Neutral = 10 \<and>
   initial_scores Neutral \<le> rule_scores f Neutral \<and>
   final_scores f Neutral = rule_scores f Neutral \<and>
   (\<forall>r. analyze_emotion_robust f = Some r \<longrightarrow>
      10 \<le> scores r Neutral \<and> (\<exists>e. scores r e \<noteq> 0) \<and>
      0 < scores_list (scores r) ! 0 \<and> 0 < scores r (emotion r))"
proof -
  have n: "10 \<le> final_scores f Neutral"
    using rule_scores_neutral [of f] by (simp add: final_scores_neutral)
  have d: "0 < final_scores f (dominant (final_scores f))"
    using n dominant_ge [of "final_scores f" Neutral] by linarith
  have e: "\<exists>e. final_scores f e \<noteq> 0"
    using n by (intro exI [of _ Neutral]) simp
  have "analyze_emotion_robust f = Some r \<Longrightarrow>
      10 \<le> scores r Neutral \<and> (\<exists>e. scores r e \<noteq> 0) \<and>
      0 < scores_list (scores r) ! 0 \<and> 0 < scores r (emotion r)" for r
    using n d e
    by (auto simp: analyze_emotion_robust_def Let_def top1_is_max split: if_splits)
  then show ?thesis
    using rule_scores_ge [of Neutral f]
    by (simp add: initial_scores_def final_scores_neutral)
qed

text \<open>The theorem of claim C10 at the dictionary that holds only a duration of 0.\<close>

theorem neutral_keeps_its_base_witness:
  "\<exists>r. analyze_emotion_robust (empty_features\<lparr>duration := Some 0\<rparr>) = Some r \<and>
       10 \<le> scores r Neutral \<and> 0 < scores r (emotion r)"
proof -
  obtain r where r: "analyze_emotion_robust (empty_features\<lparr>duration := Some 0\<rparr>) = Some r"
    by (simp add: analyze_emotion_robust_def len_features_def present_def empty_features_def
        Let_def)
  with neutral_keeps_its_base [of "empty_features\<lparr>duration := Some 0\<rparr>"]
  show ?thesis by blast
qed








section \<open>The claims about buffers and the byte heuristic\<close>

text \<open>
  Claim C8. Normalisation never divides by zero. Where the peak of the absolute samples
  exists it is not negative; when it is strictly positive the buffer is divided by it
  (and the peak of the result is 1); when it is zero the buffer is returned as it is, and
  all its samples are zero.
\<close>

theorem normalization_never_divides_by_zero:
  "normalize_audio y \<noteq> Inl ZeroDivisionError \<and>
   (\<forall>peak. np_max (np_abs y) = Inr peak \<longrightarrow>
      0 \<le> peak \<and>
      (0 < peak \<longrightarrow>
         normalize_audio y = np_divide y peak \<and>
         np_divide y peak = Inr (map (\<lambda>v. v / peak) y) \<and>
         np_max (np_abs (map (\<lambda>v. v / peak) y)) = Inr 1) \<and>
      (peak = 0 \<longrightarrow> normalize_audio y = Inr y \<and> (\<forall>v \<in> set y. v = 0)))"
proof -
  have "np_max (np_abs y) \<noteq> Inl ZeroDivisionError"
    by (cases "np_abs y") simp_all
  then have a: "normalize_audio y \<noteq> Inl ZeroDivisionError"
    by (auto simp: normalize_audio_def np_divide_def split: sum.splits)
  have b: "0 \<le> peak \<and>
      (0 < peak \<longrightarrow>
         normalize_audio y = np_divide y peak \<and>
         np_divide y peak = Inr (map (\<lambda>v. v / peak) y) \<and>
         np_max (np_abs (map (\<lambda>v. v / peak) y)) = Inr 1) \<and>
      (peak = 0 \<longrightarrow> normalize_audio y = Inr y \<and> (\<forall>v \<in> set y. v = 0))"
    if p: "np_max (np_abs y) = Inr peak" for peak
  proof -
    have z: "\<forall>v \<in> set y. v = 0" if "peak = 0"
      using peak_props(2) [OF p] that by fastforce
    have n1: "normalize_audio y = np_divide y peak" if "0 < peak"
      using p that by (simp add: normalize_audio_def)
    have n2: "np_divide y peak = Inr (map (\<lambda>v. v / peak) y)" if "0 < peak"
      using that by (simp add: np_divide_def)
    have n3: "normalize_audio y = Inr y" if "peak = 0"
      using p that by (simp add: normalize_audio_def)
    show ?thesis
      using peak_props(1) [OF p] normalized_peak [OF p] z n1 n2 n3 by blast
  qed
  show ?thesis using a b by blast
qed

text \<open>The theorem of claim C8 at a buffer with peak 2 and at a silent buffer.\<close>

theorem normalization_never_divides_by_zero_witness:
  "np_max (np_abs [1/2, -2]) = Inr 2 \<and> normalize_audio [1/2, -2] = Inr [1/4, -1] \<and>
   np_max (np_abs [0, 0]) = Inr 0 \<and> normalize_audio [0, 0] = Inr [0, 0]"
proof -
  have p: "np_max (np_abs [1/2, -2]) = Inr 2" "np_max (np_abs [0, 0]) = Inr 0"
    by (simp_all add: np_abs_def)
  have "normalize_audio [1/2, -2] = Inr (map (\<lambda>v. v / 2) [1/2, -2])"
    using p(1) normalization_never_divides_by_zero [of "[1/2, -2]"] by auto
  moreover have "normalize_audio [0, 0] = Inr [0, 0]"
    using p(2) normalization_never_divides_by_zero [of "[0, 0]"] by blast
  ultimately show ?thesis using p by simp
qed

text \<open>
  Claim C6, as amended. For every file that is not empty the byte heuristic returns a
  dictionary tagged \<^verbatim>\<open>basic_file_analysis\<close> with a tempo in \<open>[80, 160)\<close>, a duration
  in \<open>[0, 60]\<close> and a chroma mean in the closed interval \<open>[0.3, 0.7]\<close>.
\<close>

theorem byte_heuristic_ranges:
  assumes "bytes \<noteq> []"
  shows "\<exists>f t c d. method4 \<lparr>path = p, content = bytes\<rparr> = Some f \<and>
           tempo f = Some (Fin t) \<and> 80 \<le> t \<and> t < 160 \<and>
           chroma_mean f = Some (Fin c) \<and> 3/10 \<le> c \<and> c \<le> 7/10 \<and>
           duration f = Some d \<and> 0 \<le> d \<and> d \<le> 60 \<and>
           analysis_method f = Some basic_file_analysis"
proof -
  let ?n = "length (remdups (take 1024 bytes))"
  have n: "?n \<le> 256" by (rule header_entropy_bounds)
  then have "real ?n / 256 \<le> 1" by simp
  then have c: "3/10 \<le> 3/10 + real ?n / 256 * (4/10)" "3/10 + real ?n / 256 * (4/10) \<le> 7/10"
    by simp_all
  have t: "(80::real) \<le> real (80 + length bytes mod 80)" "real (80 + length bytes mod 80) < 160"
    by simp_all
  show ?thesis
    using c t
    by (simp add: method4_def analyze_audio_basic_properties_def
        convert_basic_to_audio_features_def Let_def)
qed

text \<open>The theorem of claim C6 at the four bytes of a RIFF tag.\<close>

theorem byte_heuristic_ranges_witness:
  "\<exists>f t c d. method4 \<lparr>path = ''a.wav'', content = [82, 73, 70, 70]\<rparr> = Some f \<and>
           tempo f = Some (Fin t) \<and> 80 \<le> t \<and> t < 160 \<and>
           chroma_mean f = Some (Fin c) \<and> 3/10 \<le> c \<and> c \<le> 7/10 \<and>
           duration f = Some d \<and> 0 \<le> d \<and> d \<le> 60 \<and>
           analysis_method f = Some basic_file_analysis"
  by (rule byte_heuristic_ranges) simp

text \<open>
  Claim C6 as stated fails at its upper bound for the chroma mean: a file made of the 256
  byte values once each has a header entropy of 1 and a chroma mean of exactly 0.7.
\<close>

theorem chroma_upper_bound_counterexample:
  "map_option chroma_mean (method4 \<lparr>path = ''clip.bin'', content = map word_of_nat [0..<256]\<rparr>)
     = Some (Some (Fin (7/10)))"
proof -
  have "distinct (map word_of_nat [0..<256] :: byte list)"
    by (simp add: distinct_map inj_on_word_of_nat [where ?'a = 8, simplified])
  then have "length (remdups (take 1024 (map word_of_nat [0..<256] :: byte list))) = 256"
    by (simp add: distinct_remdups_id)
  then show ?thesis
    by (simp add: method4_def analyze_audio_basic_properties_def
        convert_basic_to_audio_features_def Let_def)
qed

section \<open>The claims about the extractor\<close>

text \<open>
  Claim C9, as amended. Feature computation on a buffer that is not empty returns a
  dictionary; its tempo is 120 when beat tracking raises or yields NaN, and is the
  estimate itself otherwise, an infinite estimate included. The stored tempo is never
  NaN.
\<close>

theorem tempo_default_on_nan:
  "(y \<noteq> [] \<and> sr \<noteq> 0 \<longrightarrow> (\<exists>f. extract_librosa_features E y sr = Some f)) \<and>
   (\<forall>f. extract_librosa_features E y sr = Some f \<longrightarrow>
      (\<exists>yn. normalize_audio y = Inr yn \<and>
         tempo f = Some (case beat_track E yn sr of
                           Some t \<Rightarrow> if t = NaN then Fin 120 else t
                         | None \<Rightarrow> Fin 120)) \<and>
      tempo f \<noteq> None \<and> tempo f \<noteq> Some NaN)"
proof -
  have isnan: "np_isnan t = (t = NaN)" for t by (cases t) (simp_all add: np_isnan_def)
  have "(\<exists>yn. normalize_audio y = Inr yn \<and>
         tempo f = Some (case beat_track E yn sr of
                           Some t \<Rightarrow> if t = NaN then Fin 120 else t
                         | None \<Rightarrow> Fin 120)) \<and>
      tempo f \<noteq> None \<and> tempo f \<noteq> Some NaN"
    if "extract_librosa_features E y sr = Some f" for f
  proof -
    from extract_librosa_features_Some [OF that] obtain yn peak where
      yn: "normalize_audio y = Inr yn" and
      f: "f = (computed_features E yn sr)\<lparr>duration := Some (real (length yn) / real sr),
            audio_std := Some (np_std yn), audio_max := Some peak\<rparr>"
      by blast
    have t: "tempo f = Some (case beat_track E yn sr of
                           Some t \<Rightarrow> if t = NaN then Fin 120 else t
                         | None \<Rightarrow> Fin 120)"
      by (simp add: f computed_features_def step_fields isnan split: option.split)
    then have "tempo f \<noteq> Some NaN" by (simp split: option.splits)
    with t yn show ?thesis by auto
  qed
  then show ?thesis using extract_librosa_features_total [of y sr E] by blast
qed

text \<open>The theorem of claim C9 at a one-sample buffer whose tempo estimate is NaN.\<close>

theorem tempo_default_on_nan_witness:
  "map_option tempo
     (extract_librosa_features (failing_environment\<lparr>beat_track := (\<lambda>_ _. Some NaN)\<rparr>) [1] 22050)
     = Some (Some (Fin 120))"
proof -
  have n: "normalize_audio [1] = Inr [1]"
    by (simp add: normalize_audio_def np_abs_def np_divide_def)
  obtain f where f: "extract_librosa_features (failing_environment\<lparr>beat_track := (\<lambda>_ _. Some NaN)\<rparr>) [1] 22050 = Some f"
    using tempo_default_on_nan [of "[1]" 22050 "failing_environment\<lparr>beat_track := (\<lambda>_ _. Some NaN)\<rparr>"]
    by auto
  then have "tempo f = Some (Fin 120)"
    using n tempo_default_on_nan [of "[1]" 22050 "failing_environment\<lparr>beat_track := (\<lambda>_ _. Some NaN)\<rparr>"]
    by auto
  with f show ?thesis by simp
qed

text \<open>
  Claim C9 as stated fails for an infinite estimate: the source tests the estimate with
  \<^verbatim>\<open>np.isnan\<close> only, and the infinite value is stored as the tempo.
\<close>

theorem infinite_tempo_counterexample:
  "map_option tempo
     (extract_librosa_features (failing_environment\<lparr>beat_track := (\<lambda>_ _. Some PInf)\<rparr>) [1] 22050)
     = Some (Some PInf) \<and> \<not> is_finite PInf \<and> PInf \<noteq> Fin 120"
  by (simp add: extract_librosa_features_def normalize_audio_def np_abs_def np_divide_def
      Let_def step_fields is_finite_def np_isnan_def)




text \<open>
  Claim C1 does not hold of the source. A file that is not empty and that the decoder
  reads as zero samples (a header with no frames) passes method 1, whose test for an
  empty buffer leaves the chain to the next method; method 3 has no such test and
  returns what feature computation returns for the empty buffer, which is \<^verbatim>\<open>None\<close>.
  The byte heuristic, which would have produced a dictionary, is never reached, and the
  request is answered with an error.
\<close>

theorem empty_decode_ends_the_chain:
  "content \<lparr>path = ''clip.wav'', content = [82, 73, 70, 70]\<rparr> \<noteq> [] \<and>
   extract_audio_features_multiple_methods
     (failing_environment\<lparr>load := (\<lambda>_. Some []), load_native := (\<lambda>_. Some ([], 22050))\<rparr>)
     \<lparr>path = ''clip.wav'', content = [82, 73, 70, 70]\<rparr> = None \<and>
   analyze_audio
     (failing_environment\<lparr>load := (\<lambda>_. Some []), load_native := (\<lambda>_. Some ([], 22050))\<rparr>)
     \<lparr>path = ''clip.wav'', content = [82, 73, 70, 70]\<rparr> = Inl No_features \<and>
   method4 \<lparr>path = ''clip.wav'', content = [82, 73, 70, 70]\<rparr> \<noteq> None"
proof -
  have e: "extract_audio_features_multiple_methods
     (failing_environment\<lparr>load := (\<lambda>_. Some []), load_native := (\<lambda>_. Some ([], 22050))\<rparr>)
     \<lparr>path = ''clip.wav'', content = [82, 73, 70, 70]\<rparr> = None"
    by (simp add: extract_audio_features_multiple_methods_def method1_def method2_def
        method3_def extract_librosa_features_empty endswith_def lower_def)
  have m: "method4 \<lparr>path = ''clip.wav'', content = [82, 73, 70, 70]\<rparr> \<noteq> None"
    using method4_complete [of "\<lparr>path = ''clip.wav'', content = [82, 73, 70, 70]\<rparr>"] by auto
  show ?thesis using e m by (simp add: analyze_audio_def)
qed

end
